theory Spec2Isabelle
  imports Complex_Main
begin

section \<open>The scanning time series (notebook cell 17)\<close>

text \<open>
  The last code cell of \<^verbatim>\<open>read_display_uw_hsrl_scanning.ipynb\<close> selects the scanning
  measurements inside a distance and an altitude interval and averages them over the
  angle and range dimensions:
  \<^verbatim>\<open>
  altitude_tpl = (80 - 20, 80 + 20)
  distance_tpl = (3000 - 20, 3000 + 20)
  mean_scanning_ds = scanning_ds.
      where((distance_tpl[0] < scanning_ds.distance) & (scanning_ds.distance <= distance_tpl[1]), drop=True).
      where((altitude_tpl[0] < scanning_ds.altitude) & (scanning_ds.altitude <= altitude_tpl[1]), drop=True).
      mean(dim=["angle", "range"], keep_attrs=True)
  \<close>
  The dataset is an xarray Dataset. What the cell uses of it is modelled below: the
  index labels of its three dimensions, the two-dimensional coordinates \<open>distance\<close>
  and \<open>altitude\<close>, and named data variables that carry attributes. A floating-point
  value is either NaN or a number; comparisons are exact, so numbers are reals. The
  rounding of the mean's sum is not modelled.
\<close>

datatype pyfloat = NaN | Num real

type_synonym attrs = "(string \<times> string) list"

record variable =
  var_attrs :: attrs
  var_data :: "real \<Rightarrow> real \<Rightarrow> real \<Rightarrow> pyfloat"
    \<comment> \<open>indexed by the labels of start_time, angle, range\<close>

record dataset =
  ds_attrs :: attrs
  start_times :: "real list"
  angles :: "real list"
  ranges :: "real list"
  distance :: "real \<Rightarrow> real \<Rightarrow> pyfloat"
  altitude :: "real \<Rightarrow> real \<Rightarrow> pyfloat"
  data_vars :: "string \<Rightarrow> variable option"

text \<open>The result of \<open>mean\<close> over angle and range: only start_time is left.\<close>

record reduced_variable =
  rvar_attrs :: attrs
  rvar_data :: "real \<Rightarrow> pyfloat"

record reduced_dataset =
  rds_attrs :: attrs
  rds_start_times :: "real list"
  rds_data_vars :: "string \<Rightarrow> reduced_variable option"

text \<open>\<open>i < x\<close> and \<open>x <= i\<close> for a Python int and a float: False on NaN.\<close>

fun int_lt_float :: "int \<Rightarrow> pyfloat \<Rightarrow> bool" where
  "int_lt_float i NaN = False"
| "int_lt_float i (Num x) = (real_of_int i < x)"

fun float_le_int :: "pyfloat \<Rightarrow> int \<Rightarrow> bool" where
  "float_le_int NaN i = False"
| "float_le_int (Num x) i = (x \<le> real_of_int i)"

text \<open>
  \<open>Dataset.where(cond, drop=True)\<close> for a condition over (angle, range): a label of
  a dimension is kept when the condition holds somewhere along the other dimension,
  and every data variable is NaN where the condition is false. Coordinates and
  attributes are kept.
\<close>

definition mask_variable :: "(real \<Rightarrow> real \<Rightarrow> bool) \<Rightarrow> variable \<Rightarrow> variable" where
  "mask_variable cond v =
     v\<lparr>var_data := (\<lambda>t a r. if cond a r then var_data v t a r else NaN)\<rparr>"

definition where_drop :: "(real \<Rightarrow> real \<Rightarrow> bool) \<Rightarrow> dataset \<Rightarrow> dataset" where
  "where_drop cond ds =
     ds\<lparr>angles := filter (\<lambda>a. list_ex (\<lambda>r. cond a r) (ranges ds)) (angles ds),
        ranges := filter (\<lambda>r. list_ex (\<lambda>a. cond a r) (angles ds)) (ranges ds),
        data_vars := (\<lambda>name. map_option (mask_variable cond) (data_vars ds name))\<rparr>"

text \<open>
  \<open>mean(dim=["angle", "range"], keep_attrs=...)\<close>: for each start time, the mean of
  the values that are not NaN (xarray skips NaN for floating-point data); NaN when
  there is none. The points that enter the mean are \<open>averaged_points\<close>.
\<close>

definition averaged_points :: "dataset \<Rightarrow> variable \<Rightarrow> real \<Rightarrow> (real \<times> real) list" where
  "averaged_points ds v t =
     filter (\<lambda>(a, r). var_data v t a r \<noteq> NaN) (List.product (angles ds) (ranges ds))"

fun float_value :: "pyfloat \<Rightarrow> real" where
  "float_value NaN = 0"
| "float_value (Num x) = x"

definition nanmean :: "dataset \<Rightarrow> variable \<Rightarrow> real \<Rightarrow> pyfloat" where
  "nanmean ds v t =
     (let ps = averaged_points ds v t
      in if ps = [] then NaN
         else Num (sum_list (map (\<lambda>(a, r). float_value (var_data v t a r)) ps)
                     / real (length ps)))"

definition mean_angle_range :: "bool \<Rightarrow> dataset \<Rightarrow> reduced_dataset" where
  "mean_angle_range keep_attrs ds =
     \<lparr>rds_attrs = (if keep_attrs then ds_attrs ds else []),
      rds_start_times = start_times ds,
      rds_data_vars = (\<lambda>name. map_option
         (\<lambda>v. \<lparr>rvar_attrs = (if keep_attrs then var_attrs v else []),
                rvar_data = nanmean ds v\<rparr>)
         (data_vars ds name))\<rparr>"

text \<open>The cell itself.\<close>

definition altitude_tpl :: "int \<times> int" where
  "altitude_tpl = (80 - 20, 80 + 20)"

definition distance_tpl :: "int \<times> int" where
  "distance_tpl = (3000 - 20, 3000 + 20)"

definition in_distance :: "dataset \<Rightarrow> real \<Rightarrow> real \<Rightarrow> bool" where
  "in_distance scanning_ds a r =
     (int_lt_float (fst distance_tpl) (distance scanning_ds a r)
      \<and> float_le_int (distance scanning_ds a r) (snd distance_tpl))"

definition in_altitude :: "dataset \<Rightarrow> real \<Rightarrow> real \<Rightarrow> bool" where
  "in_altitude scanning_ds a r =
     (int_lt_float (fst altitude_tpl) (altitude scanning_ds a r)
      \<and> float_le_int (altitude scanning_ds a r) (snd altitude_tpl))"

definition selected_scanning_ds :: "dataset \<Rightarrow> dataset" where
  "selected_scanning_ds scanning_ds =
     where_drop (in_altitude scanning_ds) (where_drop (in_distance scanning_ds) scanning_ds)"

definition mean_scanning_ds :: "dataset \<Rightarrow> reduced_dataset" where
  "mean_scanning_ds scanning_ds = mean_angle_range True (selected_scanning_ds scanning_ds)"



text \<open>
  A small scanning dataset for evaluating the definitions: two angles, two ranges, one
  start time. Point (1, 1) lies on the lower distance bound, point (1, 2) on the lower
  altitude bound, point (2, 1) on both upper bounds, point (2, 2) inside both
  intervals.
\<close>

definition example_variable :: variable where
  "example_variable =
     \<lparr>var_attrs = [(''long_name'', ''particulate_backscatter''), (''units'', ''m-1 sr-1'')],
      var_data = (\<lambda>t a r. Num (a + r))\<rparr>"

definition example_scanning_ds :: dataset where
  "example_scanning_ds =
     \<lparr>ds_attrs = [(''title'', ''scanning'')],
      start_times = [0],
      angles = [1, 2],
      ranges = [1, 2],
      distance = (\<lambda>a r. Num (if a = 1 \<and> r = 1 then 2980
                             else if a = 2 \<and> r = 2 then 3000 else 3020)),
      altitude = (\<lambda>a r. Num (if a = 1 \<and> r = 2 then 60
                             else if a = 2 \<and> r = 2 then 80 else 100)),
      data_vars = (\<lambda>name. if name = ''particulate_backscatter_532nm''
                           then Some example_variable else None)\<rparr>"

section \<open>The conversion script\<close>

text \<open>
  The shell script beside the notebook:
  \<^verbatim>\<open>
  # Get the directory where the script is located
  SCRIPTPATH="$( cd -- "$(dirname "$0")" >/dev/null 2>&1 ; pwd -P )"

  jupyter nbconvert \
      --to html_ch \
      ${SCRIPTPATH}/read_display_uw_hsrl_scanning.ipynb \
      --no-input \
      --output-dir=${SCRIPTPATH}
  \<close>
  An invocation is the script's \<open>$0\<close>, the invoking working directory and what the
  file system answers: which directories can be entered, and which pathnames a glob
  pattern matches. A directory is the list of its path components; symbolic links are
  not modelled, so the physical directory \<open>pwd -P\<close> prints is the one reached.
\<close>

record invocation =
  arg0 :: string
  cwd :: "string list"
  is_dir :: "string list \<Rightarrow> bool"
  glob :: "string \<Rightarrow> string list"

text \<open>Maximal runs of characters that are not delimiters.\<close>

fun split_fields_acc :: "(char \<Rightarrow> bool) \<Rightarrow> string \<Rightarrow> string \<Rightarrow> string list" where
  "split_fields_acc d acc [] = (if acc = [] then [] else [rev acc])"
| "split_fields_acc d acc (c # cs) =
     (if d c then (if acc = [] then [] else [rev acc]) @ split_fields_acc d [] cs
      else split_fields_acc d (c # acc) cs)"

definition split_fields :: "(char \<Rightarrow> bool) \<Rightarrow> string \<Rightarrow> string list" where
  "split_fields d s = split_fields_acc d [] s"

definition strip_trailing :: "char \<Rightarrow> string \<Rightarrow> string" where
  "strip_trailing c s = rev (dropWhile (\<lambda>x. x = c) (rev s))"

text \<open>The \<open>dirname\<close> utility.\<close>

definition dirname :: "string \<Rightarrow> string" where
  "dirname s =
     (let s1 = strip_trailing CHR ''/'' s
      in if s1 = [] then (if s = [] then ''.'' else ''/'')
         else if CHR ''/'' \<notin> set s1 then ''.''
         else let d = strip_trailing CHR ''/'' (rev (dropWhile (\<lambda>x. x \<noteq> CHR ''/'') (rev s1)))
              in if d = [] then ''/'' else d)"

text \<open>Command substitution \<open>$( ... )\<close> removes the trailing newlines of the output.\<close>

definition command_substitution :: "string \<Rightarrow> string" where
  "command_substitution out = strip_trailing (CHR 0x0A) out"

text \<open>
  \<open>cd -- dir\<close>: the directory is resolved from the root when it starts with a slash
  and from the working directory otherwise; when it cannot be entered the working
  directory stays as it was. The script discards the message and the status of
  \<open>cd\<close> and runs \<open>pwd -P\<close> in either case.
\<close>

fun walk :: "string list \<Rightarrow> string list \<Rightarrow> string list" where
  "walk cur [] = cur"
| "walk cur (c # cs) =
     (if c = ''.'' then walk cur cs
      else if c = ''..'' then walk (butlast cur) cs
      else walk (cur @ [c]) cs)"

definition cd :: "invocation \<Rightarrow> string \<Rightarrow> string list" where
  "cd iv dir =
     (let start = (if take 1 dir = ''/'' then [] else cwd iv);
          target = walk start (split_fields (\<lambda>c. c = CHR ''/'') dir)
      in if is_dir iv target then target else cwd iv)"

definition pwd_P :: "string list \<Rightarrow> string" where
  "pwd_P d = (if d = [] then ''/'' else concat (map (\<lambda>c. CHR ''/'' # c) d)) @ [CHR 0x0A]"

definition SCRIPTPATH :: "invocation \<Rightarrow> string" where
  "SCRIPTPATH iv =
     command_substitution
       (pwd_P (cd iv (command_substitution (dirname (arg0 iv) @ [CHR 0x0A]))))"

text \<open>
  An unquoted expansion is split into fields at the characters of the default
  \<open>IFS\<close> (space, tab, newline), and a field with a glob character is replaced by
  the pathnames it matches when there are any.
\<close>

definition is_ifs :: "char \<Rightarrow> bool" where
  "is_ifs c = (c = CHR '' '' \<or> c = CHR 0x09 \<or> c = CHR 0x0A)"

definition is_glob_char :: "char \<Rightarrow> bool" where
  "is_glob_char c = (c = CHR ''*'' \<or> c = CHR ''?'' \<or> c = CHR ''['')"

definition pathname_expansion :: "invocation \<Rightarrow> string \<Rightarrow> string list" where
  "pathname_expansion iv f =
     (if list_ex is_glob_char f \<and> glob iv f \<noteq> [] then glob iv f else [f])"

definition expand_unquoted :: "invocation \<Rightarrow> string \<Rightarrow> string list" where
  "expand_unquoted iv w = concat (map (pathname_expansion iv) (split_fields is_ifs w))"

text \<open>The arguments \<open>jupyter\<close> is run with.\<close>

definition jupyter_argv :: "invocation \<Rightarrow> string list" where
  "jupyter_argv iv =
     [''nbconvert'', ''--to'', ''html_ch'']
     @ expand_unquoted iv (SCRIPTPATH iv @ ''/read_display_uw_hsrl_scanning.ipynb'')
     @ [''--no-input'']
     @ expand_unquoted iv (''--output-dir='' @ SCRIPTPATH iv)"

text \<open>
  What nbconvert makes of its arguments, as its documentation describes the two
  options the script passes: \<open>--output-dir=DIR\<close> sets the directory the output
  is written to (the last one given counts, the working directory when none is), and
  \<open>--no-input\<close> leaves the input of every code cell out of the output.
\<close>

definition output_dir :: "string list \<Rightarrow> string" where
  "output_dir args =
     (case filter (\<lambda>a. take 13 a = ''--output-dir='') args of
        [] \<Rightarrow> []
      | x # xs \<Rightarrow> drop 13 (last (x # xs)))"






text \<open>
  An invocation of the script from \<open>/tmp\<close> by its absolute path, the script lying
  in a directory whose name has a space.
\<close>

definition spaced_invocation :: invocation where
  "spaced_invocation =
     \<lparr>arg0 = ''/data/hsrl site/examples/convert.sh'',
      cwd = [''tmp''],
      is_dir = (\<lambda>d. True),
      glob = (\<lambda>p. [])\<rparr>"

text \<open>The same script in a directory with a plain name, invoked by a relative path.\<close>

definition plain_invocation :: invocation where
  "plain_invocation =
     \<lparr>arg0 = ''../examples/convert.sh'',
      cwd = [''data'', ''hsrl'', ''docs''],
      is_dir = (\<lambda>d. True),
      glob = (\<lambda>p. [])\<rparr>"

section \<open>The notebook as a program\<close>

text \<open>
  The code cells of the notebook run in order against the outside world: the process
  environment, the file system, the network and the libraries. A run takes the file
  system (path to content) and returns a result, the file system it leaves and the
  library calls it made, each with its outcome. A Python exception is an error value:
  \<open>bind\<close> passes the first one on and runs nothing after it, as a run of all cells
  stops at the first cell that raises. The notebook has no \<open>try\<close> statement, so the
  model has no handler.
\<close>

datatype error =
    RuntimeError string
  | KeyError string
  | AttributeError string
  | FileNotFoundError string
  | ModuleNotFoundError string
  | URLError string
  | OSError string
  | TypeError string
  | ValueError string

datatype arg = Str string | Bool bool | Float real | Clim "real option" "real option"

record plot =
  plot_method :: string
  plot_group :: string
  plot_variable :: string
  plot_kwargs :: "(string \<times> arg) list"
  plot_title :: "string option"

datatype cell_output =
    Dataset_repr string
  | Plot_output plot
  | Layout_output string nat "plot list"

datatype call =
    Import string
  | Path_exists string
  | Urlretrieve string string
  | Builtin_int "string option"
  | Print string "arg list"
  | Open_dataset string string bool
  | Hv_extension string
  | Hv_opts_defaults string
  | Hvplot plot
  | Display cell_output

datatype outcome = Returned | Raised error

type_synonym event = "call \<times> outcome"

type_synonym fs = "string \<Rightarrow> string option"

type_synonym 'a prog = "fs \<Rightarrow> (error + 'a) \<times> fs \<times> event list"

text \<open>
  The world outside the notebook. \<open>retrieve url filename\<close> is what
  \<open>urllib.request.urlretrieve\<close> does: it raises, having left nothing or a partial
  file, or it stores the body and returns the response headers. \<open>netcdf_group\<close>
  reads a group out of a file's content. \<open>raises\<close> tells which of the other calls
  fail.
\<close>

record world =
  environ :: "string \<Rightarrow> string option"
  pw_dir :: "string option"
  import_module :: "string \<Rightarrow> error option"
  retrieve :: "string \<Rightarrow> string \<Rightarrow> (error \<times> string option) + (string \<times> (string \<Rightarrow> string option))"
  builtin_int :: "string option \<Rightarrow> error + int"
  netcdf_group :: "string \<Rightarrow> string \<Rightarrow> error + dataset"
  raises :: "call \<Rightarrow> error option"

definition return :: "'a \<Rightarrow> 'a prog" where
  "return x s = (Inr x, s, [])"

definition lift :: "error + 'a \<Rightarrow> 'a prog" where
  "lift r s = (r, s, [])"

definition bind :: "'a prog \<Rightarrow> ('a \<Rightarrow> 'b prog) \<Rightarrow> 'b prog" where
  "bind m f s =
     (case m s of
        (Inl e, s1, evs) \<Rightarrow> (Inl e, s1, evs)
      | (Inr x, s1, evs) \<Rightarrow> (case f x s1 of (r, s2, evs') \<Rightarrow> (r, s2, evs @ evs')))"

fun outcome_of :: "error + 'a \<Rightarrow> outcome" where
  "outcome_of (Inl e) = Raised e"
| "outcome_of (Inr x) = Returned"

definition lib_call :: "call \<Rightarrow> error + 'a \<Rightarrow> 'a prog" where
  "lib_call c r s = (r, s, [(c, outcome_of r)])"

definition opaque :: "world \<Rightarrow> call \<Rightarrow> unit prog" where
  "opaque w c = lib_call c (case raises w c of Some e \<Rightarrow> Inl e | None \<Rightarrow> Inr ())"

definition py_import :: "world \<Rightarrow> string \<Rightarrow> unit prog" where
  "py_import w name =
     lib_call (Import name) (case import_module w name of Some e \<Rightarrow> Inl e | None \<Rightarrow> Inr ())"

definition path_exists :: "string \<Rightarrow> bool prog" where
  "path_exists p s = lib_call (Path_exists p) (Inr (s p \<noteq> None)) s"

definition urlretrieve :: "world \<Rightarrow> string \<Rightarrow> string \<Rightarrow> (string \<Rightarrow> string option) prog" where
  "urlretrieve w url filename s =
     (case retrieve w url filename of
        Inl (e, partial) \<Rightarrow>
          (Inl e, (case partial of None \<Rightarrow> s | Some c \<Rightarrow> s(filename \<mapsto> c)),
           [(Urlretrieve url filename, Raised e)])
      | Inr (body, headers) \<Rightarrow>
          (Inr headers, s(filename \<mapsto> body), [(Urlretrieve url filename, Returned)]))"

definition py_int :: "world \<Rightarrow> string option \<Rightarrow> int prog" where
  "py_int w x = lib_call (Builtin_int x) (builtin_int w x)"

definition py_print :: "world \<Rightarrow> string \<Rightarrow> arg list \<Rightarrow> unit prog" where
  "py_print w template args = opaque w (Print template args)"

text \<open>
  \<open>xr.open_dataset(path, group=...)\<close>: the call is recorded with whether the file is
  on disk at that moment.
\<close>

definition open_dataset :: "world \<Rightarrow> string \<Rightarrow> string \<Rightarrow> dataset prog" where
  "open_dataset w p g s =
     (case s p of
        None \<Rightarrow> lib_call (Open_dataset p g False) (Inl (FileNotFoundError p)) s
      | Some content \<Rightarrow> lib_call (Open_dataset p g True) (netcdf_group w content g) s)"

definition hvplot :: "world \<Rightarrow> plot \<Rightarrow> plot prog" where
  "hvplot w p = bind (opaque w (Hvplot p)) (\<lambda>u. return p)"

definition display :: "world \<Rightarrow> cell_output \<Rightarrow> unit prog" where
  "display w out = opaque w (Display out)"

subsection \<open>Paths\<close>

text \<open>
  \<open>Path("~/").expanduser()\<close> on POSIX with Python 3.10: the home directory is
  \<open>HOME\<close> when the variable is set and the password database's entry otherwise,
  without trailing slashes (\<open>/\<close> when nothing is left); pathlib raises when no home
  directory is found or when it begins with a tilde. A pure path is its root and its
  parts: empty and \<open>.\<close> components are dropped.
\<close>

definition expanduser_home :: "world \<Rightarrow> error + string" where
  "expanduser_home w =
     (case (case environ w ''HOME'' of Some h \<Rightarrow> Some h | None \<Rightarrow> pw_dir w) of
        None \<Rightarrow> Inl (RuntimeError ''Could not determine home directory.'')
      | Some userhome \<Rightarrow>
          (let homedir = (if strip_trailing CHR ''/'' userhome = [] then ''/''
                          else strip_trailing CHR ''/'' userhome)
           in if take 1 homedir = ''~''
              then Inl (RuntimeError ''Could not determine home directory.'')
              else Inr homedir))"

record pure_path =
  path_root :: string
  path_parts :: "string list"

definition Path :: "string \<Rightarrow> pure_path" where
  "Path s =
     \<lparr>path_root = (if take 2 s = ''//'' \<and> take 3 s \<noteq> ''///'' then ''//''
              else if take 1 s = ''/'' then ''/'' else ''''),
      path_parts = filter (\<lambda>c. c \<noteq> ''.'') (split_fields (\<lambda>c. c = CHR ''/'') s)\<rparr>"

definition path_name :: "pure_path \<Rightarrow> string" where
  "path_name p = (if path_parts p = [] then '''' else last (path_parts p))"

fun join_with_slash :: "string list \<Rightarrow> string" where
  "join_with_slash [] = ''''"
| "join_with_slash [c] = c"
| "join_with_slash (c # cs) = c @ ''/'' @ join_with_slash cs"

definition path_str :: "pure_path \<Rightarrow> string" where
  "path_str p = (if path_root p = [] \<and> path_parts p = [] then ''.'' else path_root p @ join_with_slash (path_parts p))"

definition path_div :: "pure_path \<Rightarrow> string \<Rightarrow> pure_path" where
  "path_div p name = p\<lparr>path_parts := path_parts p @ path_parts (Path name)\<rparr>"

subsection \<open>Cell 1: download\<close>

text \<open>
  \<^verbatim>\<open>
  import urllib.request
  from pathlib import Path
  remote_l1b_url_str = (
      "https://ftp.ssec.wisc.edu/pub/incoming/"
      "bagohsrl_20230814T000000_20230815T000000_30.0s_7.5m_1.0deg_L1B_preliminary.nc"
  )
  l1b_fileP = Path("~/").expanduser() / Path(remote_l1b_url_str).name
  if l1b_fileP.exists() is False:
      _, header_obj = urllib.request.urlretrieve(remote_l1b_url_str, str(l1b_fileP))
      print(
          "Downloaded {:.1f} GB of data to file {:s}.".format(
              round(int(header_obj["Content-Length"]) / 1024**3, 1),
              str(l1b_fileP)
          )
      )
  \<close>
  The path is kept as its string. \<open>round(x, 1)\<close> rounds half to even; the floating
  point rounding of the quotient is not modelled.
\<close>

definition remote_l1b_url_str :: string where
  "remote_l1b_url_str =
     ''https://ftp.ssec.wisc.edu/pub/incoming/''
     @ ''bagohsrl_20230814T000000_20230815T000000_30.0s_7.5m_1.0deg_L1B_preliminary.nc''"

definition l1b_fileP :: "world \<Rightarrow> error + string" where
  "l1b_fileP w =
     (case expanduser_home w of
        Inl e \<Rightarrow> Inl e
      | Inr homedir \<Rightarrow>
          Inr (path_str (path_div (Path homedir) (path_name (Path remote_l1b_url_str)))))"

definition py_round1 :: "real \<Rightarrow> real" where
  "py_round1 x =
     (let y = x * 10; q = \<lfloor>y\<rfloor>; f = y - of_int q
      in (if f < 1 / 2 then of_int q
          else if 1 / 2 < f then of_int (q + 1)
          else if even q then of_int q else of_int (q + 1)) / 10)"

definition download_step :: "world \<Rightarrow> string \<Rightarrow> unit prog" where
  "download_step w p =
     bind (path_exists p) (\<lambda>exists.
       if exists = False then
         bind (urlretrieve w remote_l1b_url_str p) (\<lambda>header_obj.
         bind (py_int w (header_obj ''Content-Length'')) (\<lambda>n.
           py_print w ''Downloaded {:.1f} GB of data to file {:s}.''
             [Float (py_round1 (real_of_int n / 1024 ^ 3)), Str p]))
       else return ())"

definition cell_1 :: "world \<Rightarrow> string prog" where
  "cell_1 w =
     bind (py_import w ''urllib.request'') (\<lambda>u.
     bind (py_import w ''pathlib'') (\<lambda>u.
     bind (lift (l1b_fileP w)) (\<lambda>p.
     bind (download_step w p) (\<lambda>u. return p))))"

subsection \<open>Cells 3, 7 and 13: opening the three groups\<close>

text \<open>
  \<^verbatim>\<open>
  import numpy as np
  import xarray as xr
  vert_stare_ds = xr.open_dataset(l1b_fileP, group="vertical_stare")
  vert_stare_ds
  \<close>
  and likewise \<open>horz_stare_ds\<close> and \<open>scanning_ds\<close>, without the imports. The last
  expression of a cell is displayed.
\<close>

definition cell_3 :: "world \<Rightarrow> string \<Rightarrow> dataset prog" where
  "cell_3 w p =
     bind (py_import w ''numpy'') (\<lambda>u.
     bind (py_import w ''xarray'') (\<lambda>u.
     bind (open_dataset w p ''vertical_stare'') (\<lambda>vert_stare_ds.
     bind (display w (Dataset_repr ''vertical_stare'')) (\<lambda>u. return vert_stare_ds))))"

definition cell_7 :: "world \<Rightarrow> string \<Rightarrow> dataset prog" where
  "cell_7 w p =
     bind (open_dataset w p ''horizontal_stare'') (\<lambda>horz_stare_ds.
     bind (display w (Dataset_repr ''horizontal_stare'')) (\<lambda>u. return horz_stare_ds))"

definition cell_13 :: "world \<Rightarrow> string \<Rightarrow> dataset prog" where
  "cell_13 w p =
     bind (open_dataset w p ''scanning'') (\<lambda>scanning_ds.
     bind (display w (Dataset_repr ''scanning'')) (\<lambda>u. return scanning_ds))"

subsection \<open>Cells 5, 9 and 15: the four-panel layouts\<close>

text \<open>
  The three layout cells have the same text up to the dataset, the plot method, the
  axes, the colour limits and \<open>logz\<close>. One panel is
  \<^verbatim>\<open>
  ds.VAR.hvplot(
      x=X, y=Y, cmap="turbo", clim=CLIM, [logz=LOGZ,]
      clabel="{:s} [{:s}]".format(ds.VAR.attrs["long_name"], ds.VAR.attrs["units"]),
      rasterize=enable_plot_rasterize_bl
  ).opts(title=ds.VAR.attrs["long_name"].replace("_", " "))
  \<close>
  where only the backscatter panel has \<open>logz\<close> and the units in its label. The four
  panels are added up, titled, laid out in two columns and displayed:
  \<^verbatim>\<open>( p1 + p2 + p3 + p4 ).opts(title="MAGPIE, Barbados, Ragged Point, 2023-08-14").cols(2)\<close>
  A missing variable raises AttributeError and a missing attribute KeyError.
\<close>

definition enable_plot_rasterize_bl :: bool where
  "enable_plot_rasterize_bl = True"

definition getattr_variable :: "dataset \<Rightarrow> string \<Rightarrow> error + variable" where
  "getattr_variable ds name =
     (case data_vars ds name of None \<Rightarrow> Inl (AttributeError name) | Some v \<Rightarrow> Inr v)"

definition getitem :: "attrs \<Rightarrow> string \<Rightarrow> error + string" where
  "getitem a key = (case map_of a key of None \<Rightarrow> Inl (KeyError key) | Some x \<Rightarrow> Inr x)"

definition replace_underscores :: "string \<Rightarrow> string" where
  "replace_underscores s = map (\<lambda>c. if c = CHR ''_'' then CHR '' '' else c) s"

definition panel ::
  "world \<Rightarrow> string \<Rightarrow> dataset \<Rightarrow> string \<Rightarrow> string \<Rightarrow> string \<Rightarrow> string \<Rightarrow> arg \<Rightarrow> bool option \<Rightarrow> bool
     \<Rightarrow> plot prog" where
  "panel w grp ds method name x y clim logz with_units =
     bind (lift (getattr_variable ds name)) (\<lambda>v.
     bind (lift (getitem (var_attrs v) ''long_name'')) (\<lambda>long_name.
     bind (if with_units then lift (getitem (var_attrs v) ''units'') else return []) (\<lambda>units.
     bind (hvplot w
             \<lparr>plot_method = method, plot_group = grp, plot_variable = name,
              plot_kwargs =
                [(''x'', Str x), (''y'', Str y), (''cmap'', Str ''turbo''), (''clim'', clim)]
                @ (case logz of None \<Rightarrow> [] | Some b \<Rightarrow> [(''logz'', Bool b)])
                @ [(''clabel'', Str (if with_units then long_name @ '' ['' @ units @ '']''
                                     else long_name)),
                   (''rasterize'', Bool enable_plot_rasterize_bl)],
              plot_title = None\<rparr>) (\<lambda>p.
     bind (lift (getitem (var_attrs v) ''long_name'')) (\<lambda>title.
       return (p\<lparr>plot_title := Some (replace_underscores title)\<rparr>))))))"

definition four_panels ::
  "world \<Rightarrow> string \<Rightarrow> dataset \<Rightarrow> string \<Rightarrow> string \<Rightarrow> string \<Rightarrow> arg \<Rightarrow> bool \<Rightarrow> arg \<Rightarrow> arg \<Rightarrow> arg
     \<Rightarrow> unit prog" where
  "four_panels w grp ds method x y clim1 logz1 clim2 clim3 clim4 =
     bind (panel w grp ds method ''particulate_backscatter_532nm'' x y clim1 (Some logz1) True)
       (\<lambda>p1.
     bind (panel w grp ds method ''particulate_linear_depolarization_532nm'' x y clim2 None False)
       (\<lambda>p2.
     bind (panel w grp ds method ''particulate_optical_depth_532nm'' x y clim3 None False)
       (\<lambda>p3.
     bind (panel w grp ds method ''attenuated_color_ratio_1064nm_532nm'' x y clim4 None False)
       (\<lambda>p4.
       display w (Layout_output ''MAGPIE, Barbados, Ragged Point, 2023-08-14'' 2
                    [p1, p2, p3, p4])))))"

text \<open>
  Cell 5 first sets holoviews up:
  \<^verbatim>\<open>
  import hvplot.xarray
  import holoviews as hv
  hv.extension("bokeh")
  hv.config.image_rtol = 10
  hv.opts.defaults(hv.opts.Image(active_tools=["box_zoom"]))
  hv.opts.defaults(hv.opts.QuadMesh(active_tools=["box_zoom"]))
  hv.opts.defaults(hv.opts.Curve(active_tools=["box_zoom"], show_grid=True))
  hv.opts.defaults(hv.opts.Scatter(active_tools=["box_zoom"], show_grid=True))
  enable_plot_rasterize_bl = True
  \<close>
  The assignment to \<open>hv.config.image_rtol\<close> is no call and leaves no event.
\<close>

definition cell_5 :: "world \<Rightarrow> dataset \<Rightarrow> unit prog" where
  "cell_5 w vert_stare_ds =
     bind (py_import w ''hvplot.xarray'') (\<lambda>u.
     bind (py_import w ''holoviews'') (\<lambda>u.
     bind (opaque w (Hv_extension ''bokeh'')) (\<lambda>u.
     bind (opaque w (Hv_opts_defaults ''Image'')) (\<lambda>u.
     bind (opaque w (Hv_opts_defaults ''QuadMesh'')) (\<lambda>u.
     bind (opaque w (Hv_opts_defaults ''Curve'')) (\<lambda>u.
     bind (opaque w (Hv_opts_defaults ''Scatter'')) (\<lambda>u.
       four_panels w ''vertical_stare'' vert_stare_ds ''hvplot'' ''time'' ''altitude''
         (Clim (Some (1 / 10 ^ 8)) (Some (1 / 10 ^ 4))) True
         (Clim (Some 0) (Some (6 / 10)))
         (Clim None (Some (8 / 10)))
         (Clim (Some 0) (Some 1)))))))))"

definition cell_9 :: "world \<Rightarrow> dataset \<Rightarrow> unit prog" where
  "cell_9 w horz_stare_ds =
     four_panels w ''horizontal_stare'' horz_stare_ds ''hvplot'' ''time'' ''range''
       (Clim (Some (2 / 10 ^ 6)) (Some (7 / 10 ^ 6))) False
       (Clim (Some (1 / 100)) (Some (9 / 100)))
       (Clim None (Some (8 / 10)))
       (Clim (Some (3 / 10)) (Some (6 / 10)))"

definition cell_15 :: "world \<Rightarrow> dataset \<Rightarrow> unit prog" where
  "cell_15 w scanning_ds =
     four_panels w ''scanning'' scanning_ds ''hvplot.quadmesh'' ''distance'' ''altitude''
       (Clim (Some (1 / 10 ^ 8)) (Some (1 / 10 ^ 4))) True
       (Clim (Some 0) (Some (6 / 10)))
       (Clim None (Some (8 / 10)))
       (Clim (Some 0) (Some 1))"

subsection \<open>Cell 11: the altitude of the horizontal stare\<close>

text \<open>
  \<^verbatim>\<open>
  altitude_da = horz_stare_ds.altitude
  altitude_da.name = "altitude coordinate"
  altitude_da.sel(range=5.0e+3, method="nearest").hvplot(x="time", label="range 5km")
  \<close>
\<close>

definition cell_11 :: "world \<Rightarrow> dataset \<Rightarrow> unit prog" where
  "cell_11 w horz_stare_ds =
     bind (hvplot w
             \<lparr>plot_method = ''hvplot'', plot_group = ''horizontal_stare'',
              plot_variable = ''altitude coordinate'',
              plot_kwargs = [(''x'', Str ''time''), (''label'', Str ''range 5km'')],
              plot_title = None\<rparr>) (\<lambda>p.
       display w (Plot_output p))"

subsection \<open>Cell 17: the time series of the spatial mean\<close>

text \<open>
  After \<open>mean_scanning_ds\<close> is computed (see the first section) the cell shows it:
  \<^verbatim>\<open>
  (
      mean_scanning_ds.particulate_backscatter_532nm.hvplot.scatter(
          x="start_time", xlabel="Scan start time", grid=True)
      + mean_scanning_ds.particulate_linear_depolarization_532nm.hvplot.scatter(...)
      + mean_scanning_ds.particulate_optical_depth_532nm.hvplot.scatter(...)
      + mean_scanning_ds.attenuated_color_ratio_1064nm_532nm.hvplot.scatter(...)
  ).opts(title="Scanning measurements over altitude and distance intervals
                [60, 100]m and [2980, 3020]m").cols(2)
  \<close>
\<close>

definition getattr_reduced :: "reduced_dataset \<Rightarrow> string \<Rightarrow> error + reduced_variable" where
  "getattr_reduced ds name =
     (case rds_data_vars ds name of None \<Rightarrow> Inl (AttributeError name) | Some v \<Rightarrow> Inr v)"

definition scatter :: "world \<Rightarrow> reduced_dataset \<Rightarrow> string \<Rightarrow> plot prog" where
  "scatter w ds name =
     bind (lift (getattr_reduced ds name)) (\<lambda>v.
       hvplot w
         \<lparr>plot_method = ''hvplot.scatter'', plot_group = ''scanning'', plot_variable = name,
          plot_kwargs = [(''x'', Str ''start_time''), (''xlabel'', Str ''Scan start time''),
                         (''grid'', Bool True)],
          plot_title = None\<rparr>)"

definition cell_17 :: "world \<Rightarrow> dataset \<Rightarrow> unit prog" where
  "cell_17 w scanning_ds =
     bind (scatter w (mean_scanning_ds scanning_ds) ''particulate_backscatter_532nm'') (\<lambda>p1.
     bind (scatter w (mean_scanning_ds scanning_ds) ''particulate_linear_depolarization_532nm'')
       (\<lambda>p2.
     bind (scatter w (mean_scanning_ds scanning_ds) ''particulate_optical_depth_532nm'') (\<lambda>p3.
     bind (scatter w (mean_scanning_ds scanning_ds) ''attenuated_color_ratio_1064nm_532nm'')
       (\<lambda>p4.
       display w
         (Layout_output
            (''Scanning measurements over altitude and distance intervals ''
             @ ''[60, 100]m and [2980, 3020]m'') 2 [p1, p2, p3, p4])))))"

subsection \<open>The whole notebook\<close>

definition cells_3_to_17 :: "world \<Rightarrow> string \<Rightarrow> unit prog" where
  "cells_3_to_17 w p =
     bind (cell_3 w p) (\<lambda>vert_stare_ds.
     bind (cell_5 w vert_stare_ds) (\<lambda>u.
     bind (cell_7 w p) (\<lambda>horz_stare_ds.
     bind (cell_9 w horz_stare_ds) (\<lambda>u.
     bind (cell_11 w horz_stare_ds) (\<lambda>u.
     bind (cell_13 w p) (\<lambda>scanning_ds.
     bind (cell_15 w scanning_ds) (\<lambda>u.
       cell_17 w scanning_ds)))))))"

definition notebook :: "world \<Rightarrow> unit prog" where
  "notebook w = bind (cell_1 w) (cells_3_to_17 w)"

text \<open>What a run shows: its result, the file system it leaves, its events, the calls,
  and the plots of the displayed outputs.\<close>

definition result :: "(error + 'a) \<times> fs \<times> event list \<Rightarrow> error + 'a" where
  "result run = fst run"

definition final_fs :: "(error + 'a) \<times> fs \<times> event list \<Rightarrow> fs" where
  "final_fs run = fst (snd run)"

definition events :: "(error + 'a) \<times> fs \<times> event list \<Rightarrow> event list" where
  "events run = snd (snd run)"

definition calls :: "(error + 'a) \<times> fs \<times> event list \<Rightarrow> call list" where
  "calls run = map fst (events run)"




definition geophysical_variables :: "string list" where
  "geophysical_variables =
     [''particulate_backscatter_532nm'', ''particulate_linear_depolarization_532nm'',
      ''particulate_optical_depth_532nm'', ''attenuated_color_ratio_1064nm_532nm'']"

fun is_urlretrieve :: "call \<Rightarrow> bool" where
  "is_urlretrieve (Urlretrieve url filename) = True"
| "is_urlretrieve c = False"

fun opened_at :: "string \<Rightarrow> call \<Rightarrow> bool" where
  "opened_at p (Open_dataset q g present) = (q = p \<and> present)"
| "opened_at p c = True"

fun is_open_dataset :: "call \<Rightarrow> bool" where
  "is_open_dataset (Open_dataset p g present) = True"
| "is_open_dataset c = False"


subsection \<open>Worlds and file systems to run the notebook in\<close>

text \<open>
  A world where everything works: the home directory is \<open>/home/user\<close>, every import
  and call succeeds, the download returns a file, and every group of that file is the
  example dataset with all four variables.
\<close>

definition example_dataset :: dataset where
  "example_dataset =
     example_scanning_ds\<lparr>data_vars :=
       (\<lambda>name. if name \<in> set geophysical_variables
                then Some (example_variable\<lparr>var_attrs := [(''long_name'', name), (''units'', ''1'')]\<rparr>)
                else None)\<rparr>"

definition example_world :: world where
  "example_world =
     \<lparr>environ = (\<lambda>name. if name = ''HOME'' then Some ''/home/user'' else None),
      pw_dir = Some ''/home/user'',
      import_module = (\<lambda>name. None),
      retrieve = (\<lambda>url filename.
        Inr (''netcdf'', (\<lambda>h. if h = ''Content-Length'' then Some ''1500000000'' else None))),
      builtin_int = (\<lambda>x. Inr 1500000000),
      netcdf_group = (\<lambda>content g. Inr example_dataset),
      raises = (\<lambda>c. None)\<rparr>"

definition example_l1b_path :: string where
  "example_l1b_path =
     ''/home/user/bagohsrl_20230814T000000_20230815T000000_30.0s_7.5m_1.0deg_L1B_preliminary.nc''"

definition fs_absent :: fs where
  "fs_absent = (\<lambda>p. None)"

definition fs_present :: fs where
  "fs_present = (\<lambda>p. if p = example_l1b_path then Some ''netcdf'' else None)"





subsection \<open>The straight-line programs\<close>





subsection \<open>Predicates on runs\<close>



text \<open>
  A program keeps the file at \<open>p\<close> when, started with the file on disk, it leaves it
  on disk and opens no other path, and this one only while the file is there.
\<close>

definition keeps_file :: "string \<Rightarrow> 'a prog \<Rightarrow> bool" where
  "keeps_file p m =
     (\<forall>s. s p \<noteq> None \<longrightarrow>
        final_fs (m s) p \<noteq> None \<and> list_all (opened_at p) (calls (m s)))"

section \<open>Properties of the scanning time series\<close>



lemma selected_data_vars:
  "data_vars (selected_scanning_ds ds) name =
     map_option (\<lambda>v. mask_variable (in_altitude ds) (mask_variable (in_distance ds) v))
       (data_vars ds name)"
  by (simp add: selected_scanning_ds_def where_drop_def option.map_comp comp_def)




lemma selected_labels_subset:
  "set (angles (selected_scanning_ds ds)) \<subseteq> set (angles ds)"
  "set (ranges (selected_scanning_ds ds)) \<subseteq> set (ranges ds)"
  by (auto simp add: selected_scanning_ds_def where_drop_def)




text \<open>
  C9. The spatial averaging of the selected scanning data leaves the attributes of
  every data variable (and of the dataset) unchanged: the mean is taken with
  \<open>keep_attrs=True\<close>, and the two selections before it keep attributes too.
\<close>

theorem mean_scanning_keeps_attrs:
  "map_option rvar_attrs (rds_data_vars (mean_scanning_ds ds) name)
     = map_option var_attrs (data_vars ds name)
   \<and> rds_attrs (mean_scanning_ds ds) = ds_attrs ds"
  by (simp add: mean_scanning_ds_def mean_angle_range_def selected_data_vars
        option.map_comp comp_def mask_variable_def)
    (simp add: selected_scanning_ds_def where_drop_def)

theorem mean_scanning_keeps_attrs_witness:
  "map_option rvar_attrs
     (rds_data_vars (mean_scanning_ds example_scanning_ds) ''particulate_backscatter_532nm'')
     = Some [(''long_name'', ''particulate_backscatter''), (''units'', ''m-1 sr-1'')]"
  using mean_scanning_keeps_attrs [of example_scanning_ds "''particulate_backscatter_532nm''"]
  by (simp add: example_scanning_ds_def example_variable_def)

text \<open>Without \<open>keep_attrs\<close> the same mean drops every attribute.\<close>

lemma mean_without_keep_attrs:
  "data_vars ds name = Some v \<Longrightarrow>
   map_option rvar_attrs (rds_data_vars (mean_angle_range False ds) name) = Some []"
  by (simp add: mean_angle_range_def)

section \<open>Properties of the conversion script\<close>

lemma fields_acc_no_delimiter:
  "list_all (\<lambda>c. \<not> d c) s \<Longrightarrow>
   split_fields_acc d acc s = (if acc = [] \<and> s = [] then [] else [rev acc @ s])"
  by (induction s arbitrary: acc) simp_all

lemma expand_unquoted_plain:
  assumes "w \<noteq> []" and "list_all (\<lambda>c. \<not> is_ifs c) w" and "list_all (\<lambda>c. \<not> is_glob_char c) w"
  shows "expand_unquoted iv w = [w]"
proof -
  have "split_fields is_ifs w = [w]"
    using assms(1,2) by (simp add: split_fields_def fields_acc_no_delimiter)
  moreover have "\<not> list_ex is_glob_char w"
    using assms(3) by (simp add: list_all_iff list_ex_iff)
  ultimately show ?thesis
    by (simp add: expand_unquoted_def pathname_expansion_def)
qed

lemma strip_trailing_Cons:
  "x \<noteq> c \<Longrightarrow> strip_trailing c (x # s) = x # strip_trailing c s"
  by (simp add: strip_trailing_def dropWhile_append)

lemma SCRIPTPATH_starts_with_slash:
  "\<exists>rest. SCRIPTPATH iv = CHR ''/'' # rest"
proof -
  have "\<exists>rest. pwd_P d = CHR ''/'' # rest" for d
    by (cases d) (simp_all add: pwd_P_def)
  then obtain rest where "pwd_P (cd iv (command_substitution (dirname (arg0 iv) @ [CHR 0x0A])))
      = CHR ''/'' # rest"
    by blast
  then show ?thesis
    by (simp add: SCRIPTPATH_def command_substitution_def strip_trailing_Cons)
qed

text \<open>
  When the directory the script finds for itself has no blank and no glob character,
  nbconvert is given that directory as its output directory and the notebook in it.
\<close>

lemma jupyter_argv_plain:
  assumes "list_all (\<lambda>c. \<not> is_ifs c) (SCRIPTPATH iv)"
    and "list_all (\<lambda>c. \<not> is_glob_char c) (SCRIPTPATH iv)"
  shows "jupyter_argv iv =
           [''nbconvert'', ''--to'', ''html_ch'',
            SCRIPTPATH iv @ ''/read_display_uw_hsrl_scanning.ipynb'',
            ''--no-input'',
            ''--output-dir='' @ SCRIPTPATH iv]"
proof -
  have "expand_unquoted iv (SCRIPTPATH iv @ ''/read_display_uw_hsrl_scanning.ipynb'')
          = [SCRIPTPATH iv @ ''/read_display_uw_hsrl_scanning.ipynb'']"
    using assms by (intro expand_unquoted_plain) (simp_all add: is_ifs_def is_glob_char_def)
  moreover have "expand_unquoted iv (''--output-dir='' @ SCRIPTPATH iv)
          = [''--output-dir='' @ SCRIPTPATH iv]"
    using assms by (intro expand_unquoted_plain) (simp_all add: is_ifs_def is_glob_char_def)
  ultimately show ?thesis
    by (simp add: jupyter_argv_def)
qed

lemma output_dir_plain:
  assumes "list_all (\<lambda>c. \<not> is_ifs c) (SCRIPTPATH iv)"
    and "list_all (\<lambda>c. \<not> is_glob_char c) (SCRIPTPATH iv)"
  shows "output_dir (jupyter_argv iv) = SCRIPTPATH iv"
proof -
  obtain rest where "SCRIPTPATH iv = CHR ''/'' # rest"
    using SCRIPTPATH_starts_with_slash by blast
  then show ?thesis
    by (simp add: jupyter_argv_plain [OF assms] output_dir_def)
qed

lemma output_dir_plain_invocation:
  "SCRIPTPATH plain_invocation = ''/data/hsrl/examples''
   \<and> output_dir (jupyter_argv plain_invocation) = ''/data/hsrl/examples''"
  by (simp add: SCRIPTPATH_def plain_invocation_def jupyter_argv_def output_dir_def
        expand_unquoted_def pathname_expansion_def split_fields_def is_ifs_def is_glob_char_def
        command_substitution_def pwd_P_def cd_def dirname_def strip_trailing_def)

text \<open>
  C7. The script is meant to write the HTML into the directory that contains the
  script, whatever the invoking working directory. For a script directory whose name
  has a blank the unquoted \<open>${SCRIPTPATH}\<close> is split: the script lies in
  \<open>/data/hsrl site/examples\<close>, and nbconvert is told to write to \<open>/data/hsrl\<close>.
\<close>

theorem output_dir_spaced_invocation:
  "SCRIPTPATH spaced_invocation = ''/data/hsrl site/examples''
   \<and> jupyter_argv spaced_invocation =
       [''nbconvert'', ''--to'', ''html_ch'', ''/data/hsrl'',
        ''site/examples/read_display_uw_hsrl_scanning.ipynb'', ''--no-input'',
        ''--output-dir=/data/hsrl'', ''site/examples'']
   \<and> output_dir (jupyter_argv spaced_invocation) = ''/data/hsrl''"
  by (simp add: SCRIPTPATH_def spaced_invocation_def jupyter_argv_def output_dir_def
        expand_unquoted_def pathname_expansion_def split_fields_def is_ifs_def is_glob_char_def
        command_substitution_def pwd_P_def cd_def dirname_def strip_trailing_def)




section \<open>Properties of the notebook\<close>

lemmas prim_defs =
  bind_def return_def lift_def lib_call_def opaque_def py_import_def path_exists_def
  urlretrieve_def py_int_def py_print_def open_dataset_def hvplot_def display_def

lemmas run_defs = result_def final_fs_def events_def calls_def



subsection \<open>Cell 1\<close>

text \<open>
  C1. For every initial file system the download step fetches the remote file if and
  only if nothing exists at the local cache path; when the local file exists no
  fetch is made and the file system, hence the file, is left as it was.
\<close>

theorem download_iff_absent:
  "(Urlretrieve remote_l1b_url_str p \<in> set (calls (download_step w p s)) \<longleftrightarrow> s p = None)
   \<and> (list_ex is_urlretrieve (calls (download_step w p s)) \<longleftrightarrow> s p = None)
   \<and> (s p \<noteq> None \<longrightarrow> final_fs (download_step w p s) = s)"
  by (auto simp add: download_step_def prim_defs run_defs
        split: sum.splits prod.splits option.splits)

theorem download_iff_absent_witness:
  "list_ex is_urlretrieve (calls (download_step example_world example_l1b_path fs_absent))
   \<and> \<not> list_ex is_urlretrieve (calls (download_step example_world example_l1b_path fs_present))
   \<and> final_fs (download_step example_world example_l1b_path fs_present) = fs_present"
  using download_iff_absent [of example_l1b_path example_world fs_absent]
    download_iff_absent [of example_l1b_path example_world fs_present]
  by (simp add: fs_absent_def fs_present_def)

text \<open>The cache path is the file's name under the home directory, and cell 1 runs
  the download step on it.\<close>

lemma l1b_fileP_under_home:
  "expanduser_home w = Inr homedir \<Longrightarrow>
   l1b_fileP w = Inr (path_str (path_div (Path homedir)
     ''bagohsrl_20230814T000000_20230815T000000_30.0s_7.5m_1.0deg_L1B_preliminary.nc''))"
  by (simp add: l1b_fileP_def Path_def path_name_def remote_l1b_url_str_def split_fields_def)

subsection \<open>The one conditional\<close>




subsection \<open>The environment\<close>







subsection \<open>Errors\<close>



















subsection \<open>The file is there when it is opened\<close>

lemma keeps_file_bind:
  assumes m: "keeps_file p m" and f: "\<And>x. keeps_file p (f x)"
  shows "keeps_file p (bind m f)"
  unfolding keeps_file_def
proof (intro allI impI)
  fix s :: fs
  assume present: "s p \<noteq> None"
  obtain r s1 evs1 where ms: "m s = (r, s1, evs1)"
    by (cases "m s") auto
  with m present have m1: "s1 p \<noteq> None" "list_all (opened_at p) (map fst evs1)"
    by (auto simp add: keeps_file_def run_defs)
  show "final_fs (bind m f s) p \<noteq> None \<and> list_all (opened_at p) (calls (bind m f s))"
  proof (cases r)
    case (Inl e)
    with ms m1 show ?thesis
      by (simp add: bind_def run_defs)
  next
    case (Inr x)
    obtain r2 s2 evs2 where fs: "f x s1 = (r2, s2, evs2)"
      by (cases "f x s1") auto
    with f [of x] m1(1) have "s2 p \<noteq> None" "list_all (opened_at p) (map fst evs2)"
      by (auto simp add: keeps_file_def run_defs)
    with ms Inr fs m1 show ?thesis
      by (simp add: bind_def run_defs)
  qed
qed

lemma keeps_file_if:
  "keeps_file p a \<Longrightarrow> keeps_file p b \<Longrightarrow> keeps_file p (if c then a else b)"
  by simp

lemma keeps_file_opaque: "opened_at p c \<Longrightarrow> keeps_file p (opaque w c)"
  by (simp add: keeps_file_def run_defs opaque_def lib_call_def)

lemma keeps_file_primitives:
  "keeps_file p (return x)"
  "keeps_file p (lift r)"
  "keeps_file p (py_import w name)"
  "keeps_file p (display w out)"
  "keeps_file p (open_dataset w p g)"
  by (auto simp add: keeps_file_def run_defs return_def lift_def opaque_def lib_call_def
        py_import_def display_def open_dataset_def split: option.splits)

lemma keeps_file_hvplot: "keeps_file p (hvplot w q)"
  unfolding hvplot_def by (intro keeps_file_bind keeps_file_primitives keeps_file_opaque) simp

lemmas keeps_file_intros =
  keeps_file_bind keeps_file_if keeps_file_primitives keeps_file_hvplot

lemma keeps_file_four_panels:
  "keeps_file p (four_panels w grp ds method x y clim1 logz1 clim2 clim3 clim4)"
  unfolding four_panels_def panel_def by (intro keeps_file_intros)

lemma keeps_file_cells_3_to_17: "keeps_file p (cells_3_to_17 w p)"
  unfolding cells_3_to_17_def cell_3_def cell_5_def cell_7_def cell_9_def cell_11_def
    cell_13_def cell_15_def cell_17_def scatter_def
  by (intro keeps_file_intros keeps_file_four_panels keeps_file_opaque) simp_all

lemma cell_1_opens_nothing: "\<not> list_ex is_open_dataset (calls (cell_1 w s))"
  by (auto simp add: cell_1_def download_step_def prim_defs run_defs
        split: sum.splits prod.splits option.splits)

lemma cell_1_establishes:
  "cell_1 w s = (Inr p, s1, evs) \<Longrightarrow> l1b_fileP w = Inr p \<and> s1 p \<noteq> None"
  by (auto simp add: cell_1_def download_step_def prim_defs
        split: sum.splits prod.splits option.splits if_splits)

text \<open>
  C4. The program never opens the dataset before the data file exists: in every run,
  every \<open>open_dataset\<close> call is on the cache path and is made while a file is on
  disk there. Cell 1, when it returns, leaves the file in place, and no later cell
  removes it.
\<close>

theorem opened_only_when_present:
  assumes "Open_dataset p g present \<in> set (calls (notebook w s))"
  shows "present \<and> l1b_fileP w = Inr p"
proof -
  obtain r s1 evs1 where c1: "cell_1 w s = (r, s1, evs1)"
    by (cases "cell_1 w s") auto
  have no_open: "Open_dataset p g present \<notin> set (map fst evs1)"
  proof
    assume "Open_dataset p g present \<in> set (map fst evs1)"
    then have "\<exists>c\<in>set (map fst evs1). is_open_dataset c"
      by (rule bexI [rotated]) simp
    then show False
      using cell_1_opens_nothing [of w s] c1 by (simp add: run_defs list_ex_iff)
  qed
  show ?thesis
  proof (cases r)
    case (Inl e)
    with c1 have "calls (notebook w s) = map fst evs1"
      by (simp add: notebook_def bind_def run_defs)
    with assms no_open show ?thesis
      by simp
  next
    case (Inr q)
    with c1 have est: "l1b_fileP w = Inr q" "s1 q \<noteq> None"
      using cell_1_establishes by blast+
    obtain r2 s2 evs2 where rest: "cells_3_to_17 w q s1 = (r2, s2, evs2)"
      by (cases "cells_3_to_17 w q s1") auto
    with est(2) have all: "list_all (opened_at q) (map fst evs2)"
      using keeps_file_cells_3_to_17 [of q w] by (auto simp add: keeps_file_def run_defs)
    from c1 Inr rest have "calls (notebook w s) = map fst evs1 @ map fst evs2"
      by (simp add: notebook_def bind_def run_defs)
    with assms no_open have "Open_dataset p g present \<in> set (map fst evs2)"
      by simp
    with all have "opened_at q (Open_dataset p g present)"
      unfolding list_all_iff by blast
    with est(1) show ?thesis
      by simp
  qed
qed

lemma example_run_opens:
  "Open_dataset example_l1b_path ''vertical_stare'' True
     \<in> set (calls (notebook example_world fs_absent))"
  by code_simp

theorem opened_only_when_present_witness:
  "fs_absent example_l1b_path = None
   \<and> Open_dataset example_l1b_path ''vertical_stare'' True
       \<in> set (calls (notebook example_world fs_absent))
   \<and> l1b_fileP example_world = Inr example_l1b_path"
  using opened_only_when_present [OF example_run_opens] example_run_opens
  by (simp add: fs_absent_def)

subsection \<open>What a completed run shows\<close>























end
